theory Spec2Isabelle
  imports Complex_Main "HOL-Library.Word"
begin

section \<open>The host protocol's types, as PlugInInterface.c uses them\<close>

text \<open>
  PlugInInterface.c is the COM-style vtable that coreaudiod calls into. Every entry is a
  C function over three file-level statics (\<open>sDriverRefCount\<close>, \<open>sHost\<close> and the log
  handle). The model passes the statics explicitly as a record and returns the updated
  record next to the C return value and the contents of every out-parameter.

  Integers keep their C width: \<open>UInt32\<close> is a 32-bit word, so \<open>+\<close> and \<open>-\<close> wrap as
  \<open>atomic_fetch_add\<close> and \<open>atomic_fetch_sub\<close> do.
\<close>

type_synonym UInt8 = "8 word"
type_synonym UInt32 = "32 word"
type_synonym ULONG = "32 word"
type_synonym AudioObjectID = "32 word"
type_synonym pid_t = "32 word"

text \<open>
  A pointer whose target the code never reads is an address. The only address the code
  itself produces is \<open>&gDriverInterfacePtr\<close>; \<open>Address n\<close> stands for any other
  non-null address the host may pass.
\<close>

datatype pointer = NULL | AddressOf_gDriverInterfacePtr | Address nat

type_synonym LPVOID = pointer
type_synonym AudioServerPlugInDriverRef = pointer
type_synonym AudioServerPlugInHostRef = pointer
type_synonym CFAllocatorRef = pointer
type_synonym IOCycleInfoRef = pointer

text \<open>
  A pointer whose target the code reads or writes is an \<open>option\<close>: \<open>None\<close> is the null
  pointer, \<open>Some v\<close> points to a cell that holds \<open>v\<close>. A function with such an
  out-parameter returns the cell as it is after the call.
\<close>

text \<open>
  The status codes are declared in the CoreFoundation and CoreAudio headers, which are
  not part of the repository. The model keeps the names the source uses and treats them
  as distinct symbolic values; \<open>kAudioHardwareNoError\<close> and \<open>S_OK\<close> are the success
  codes.
\<close>

datatype HRESULT = S_OK | E_POINTER | E_NOINTERFACE

datatype OSStatus =
    kAudioHardwareNoError
  | kAudioHardwareBadObjectError
  | kAudioHardwareUnsupportedOperationError
  | kAudioHardwareIllegalOperationError
  | kAudioHardwareUnknownPropertyError

text \<open>
  A UUID is its sixteen bytes, in the order the source passes them to
  \<open>CFUUIDGetConstantUUIDWithBytes\<close>; \<open>CFEqual\<close> on two UUIDs compares the bytes.
\<close>

type_synonym CFUUIDBytes = "UInt8 list"

definition driverInterfaceUUID :: CFUUIDBytes where
  "driverInterfaceUUID =
     [0xEE, 0xA5, 0x77, 0x3D, 0xCC, 0x43, 0x49, 0xF1,
      0x8E, 0x00, 0x8F, 0x96, 0xE7, 0xD2, 0x3B, 0x17]"

definition iunknownUUID :: CFUUIDBytes where
  "iunknownUUID =
     [0x00, 0x00, 0x00, 0x00, 0x00, 0x00, 0x00, 0x00,
      0xC0, 0x00, 0x00, 0x00, 0x00, 0x00, 0x00, 0x46]"

definition audioServerPlugInTypeUUID :: CFUUIDBytes where
  "audioServerPlugInTypeUUID =
     [0x44, 0x3A, 0xBA, 0xB8, 0xE7, 0xB3, 0x49, 0x1A,
      0xB9, 0x85, 0xBE, 0xB9, 0x18, 0x70, 0x30, 0xDB]"

definition CFEqual :: "CFUUIDBytes \<Rightarrow> CFUUIDBytes \<Rightarrow> bool" where
  "CFEqual a b = (a = b)"

record AudioServerPlugInClientInfo =
  mClientID :: UInt32
  mProcessID :: pid_t

record AudioObjectPropertyAddress =
  mSelector :: UInt32
  mScope :: UInt32
  mElement :: UInt32

section \<open>The driver's statics\<close>

text \<open>
  \<open>sDriverRefCount\<close> and \<open>sHost\<close> are the state of the driver. The log handle
  \<open>sPlugInLog\<close> and the messages written through \<open>LogInfo\<close> and \<open>LogError\<close> are
  diagnostics and are left out.
\<close>

record driver_state =
  sDriverRefCount :: UInt32
  sHost :: AudioServerPlugInHostRef

text \<open>The statics as their initialisers leave them: a count of 0 and a null host.\<close>

definition driver_initial :: driver_state where
  "driver_initial = \<lparr>sDriverRefCount = 0, sHost = NULL\<rparr>"

text \<open>The C11 atomics on \<open>sDriverRefCount\<close>: each returns the value it read.\<close>

definition atomic_load :: "driver_state \<Rightarrow> UInt32" where
  "atomic_load s = sDriverRefCount s"

definition atomic_store :: "driver_state \<Rightarrow> UInt32 \<Rightarrow> driver_state" where
  "atomic_store s v = s\<lparr>sDriverRefCount := v\<rparr>"

definition atomic_fetch_add :: "driver_state \<Rightarrow> UInt32 \<Rightarrow> UInt32 \<times> driver_state" where
  "atomic_fetch_add s n = (sDriverRefCount s, s\<lparr>sDriverRefCount := sDriverRefCount s + n\<rparr>)"

definition atomic_fetch_sub :: "driver_state \<Rightarrow> UInt32 \<Rightarrow> UInt32 \<times> driver_state" where
  "atomic_fetch_sub s n = (sDriverRefCount s, s\<lparr>sDriverRefCount := sDriverRefCount s - n\<rparr>)"

section \<open>IUnknown methods\<close>

definition PlugIn_QueryInterface ::
  "driver_state \<Rightarrow> LPVOID \<Rightarrow> CFUUIDBytes \<Rightarrow> LPVOID option
     \<Rightarrow> HRESULT \<times> LPVOID option \<times> driver_state" where
  "PlugIn_QueryInterface s inDriver inUUID outInterface =
     (if outInterface = None then (E_POINTER, outInterface, s)
      else
        let requestedUUID = inUUID;
            isDriverInterface = CFEqual requestedUUID driverInterfaceUUID;
            isIUnknown = CFEqual requestedUUID iunknownUUID
        in if isDriverInterface \<or> isIUnknown
           then (S_OK, Some AddressOf_gDriverInterfacePtr, snd (atomic_fetch_add s 1))
           else (E_NOINTERFACE, Some NULL, s))"

definition PlugIn_AddRef :: "driver_state \<Rightarrow> LPVOID \<Rightarrow> ULONG \<times> driver_state" where
  "PlugIn_AddRef s inDriver =
     (let r = atomic_fetch_add s 1; newCount = fst r + 1 in (newCount, snd r))"

definition PlugIn_Release :: "driver_state \<Rightarrow> LPVOID \<Rightarrow> ULONG \<times> driver_state" where
  "PlugIn_Release s inDriver =
     (let oldCount = atomic_load s
      in if oldCount > 0
         then (let r = atomic_fetch_sub s 1 in (fst r - 1, snd r))
         else (0, s))"

text \<open>
  \<open>PlugIn_Release\<close> above is one call running alone. The source reads the counter with
  \<open>atomic_load\<close> and subtracts with a separate \<open>atomic_fetch_sub\<close>; each of the two
  is atomic, the pair is not. A call in progress is therefore at one of three points: not
  yet loaded, loaded \<open>oldCount\<close> and about to test it, or returned.
\<close>

datatype release_pc = ReleaseEntry | ReleaseLoaded UInt32 | ReleaseReturned ULONG

fun release_step :: "driver_state \<Rightarrow> release_pc \<Rightarrow> release_pc \<times> driver_state" where
  "release_step s ReleaseEntry = (ReleaseLoaded (atomic_load s), s)"
| "release_step s (ReleaseLoaded oldCount) =
     (if oldCount > 0
      then (let r = atomic_fetch_sub s 1 in (ReleaseReturned (fst r - 1), snd r))
      else (ReleaseReturned 0, s))"
| "release_step s (ReleaseReturned newCount) = (ReleaseReturned newCount, s)"

text \<open>
  Two calls of \<open>PlugIn_Release\<close> on two host threads share the counter. A schedule names
  the thread that takes the next atomic step.
\<close>

datatype thread = ThreadA | ThreadB

fun release_interleaved_step ::
  "driver_state \<times> release_pc \<times> release_pc \<Rightarrow> thread
     \<Rightarrow> driver_state \<times> release_pc \<times> release_pc" where
  "release_interleaved_step (s, pcA, pcB) ThreadA =
     (let r = release_step s pcA in (snd r, fst r, pcB))"
| "release_interleaved_step (s, pcA, pcB) ThreadB =
     (let r = release_step s pcB in (snd r, pcA, fst r))"

definition release_interleaved ::
  "driver_state \<Rightarrow> thread list \<Rightarrow> driver_state \<times> release_pc \<times> release_pc" where
  "release_interleaved s schedule =
     foldl release_interleaved_step (s, ReleaseEntry, ReleaseEntry) schedule"

section \<open>Basic operations\<close>

definition PlugIn_Initialize ::
  "driver_state \<Rightarrow> AudioServerPlugInDriverRef \<Rightarrow> AudioServerPlugInHostRef
     \<Rightarrow> OSStatus \<times> driver_state" where
  "PlugIn_Initialize s inDriver inHost =
     (if inHost = NULL then (kAudioHardwareBadObjectError, s)
      else (kAudioHardwareNoError, s\<lparr>sHost := inHost\<rparr>))"






text \<open>
  \<open>PlugIn_AddDeviceClient\<close> and \<open>PlugIn_RemoveDeviceClient\<close> read the fields of
  \<open>*inClientInfo\<close> for the log line, so the client info is passed by value (the host
  never passes a null pointer here). Neither stores anything.
\<close>

definition PlugIn_AddDeviceClient ::
  "driver_state \<Rightarrow> AudioServerPlugInDriverRef \<Rightarrow> AudioObjectID
     \<Rightarrow> AudioServerPlugInClientInfo \<Rightarrow> OSStatus \<times> driver_state" where
  "PlugIn_AddDeviceClient s inDriver inDeviceObjectID inClientInfo =
     (kAudioHardwareNoError, s)"

definition PlugIn_RemoveDeviceClient ::
  "driver_state \<Rightarrow> AudioServerPlugInDriverRef \<Rightarrow> AudioObjectID
     \<Rightarrow> AudioServerPlugInClientInfo \<Rightarrow> OSStatus \<times> driver_state" where
  "PlugIn_RemoveDeviceClient s inDriver inDeviceObjectID inClientInfo =
     (kAudioHardwareNoError, s)"

section \<open>Property operations\<close>

text \<open>
  The qualifier and the data buffer are byte arrays behind \<open>void *\<close>. Both handlers
  return the \<open>*outDataSize\<close> cell (and \<open>PlugIn_GetPropertyData\<close> the \<open>outData\<close> buffer)
  as the call leaves it.
\<close>

definition PlugIn_GetPropertyDataSize ::
  "driver_state \<Rightarrow> AudioServerPlugInDriverRef \<Rightarrow> AudioObjectID \<Rightarrow> pid_t
     \<Rightarrow> AudioObjectPropertyAddress option \<Rightarrow> UInt32 \<Rightarrow> UInt8 list option
     \<Rightarrow> UInt32 option \<Rightarrow> OSStatus \<times> UInt32 option \<times> driver_state" where
  "PlugIn_GetPropertyDataSize s inDriver inObjectID inClientProcessID inAddress
       inQualifierDataSize inQualifierData outDataSize =
     (if outDataSize = None then (kAudioHardwareIllegalOperationError, outDataSize, s)
      else (kAudioHardwareUnknownPropertyError, Some 0, s))"

definition PlugIn_GetPropertyData ::
  "driver_state \<Rightarrow> AudioServerPlugInDriverRef \<Rightarrow> AudioObjectID \<Rightarrow> pid_t
     \<Rightarrow> AudioObjectPropertyAddress option \<Rightarrow> UInt32 \<Rightarrow> UInt8 list option
     \<Rightarrow> UInt32 \<Rightarrow> UInt32 option \<Rightarrow> UInt8 list option
     \<Rightarrow> OSStatus \<times> UInt32 option \<times> UInt8 list option \<times> driver_state" where
  "PlugIn_GetPropertyData s inDriver inObjectID inClientProcessID inAddress
       inQualifierDataSize inQualifierData inDataSize outDataSize outData =
     (if outDataSize = None \<or> outData = None
      then (kAudioHardwareIllegalOperationError, outDataSize, outData, s)
      else (kAudioHardwareUnknownPropertyError, Some 0, outData, s))"

definition PlugIn_SetPropertyData ::
  "driver_state \<Rightarrow> AudioServerPlugInDriverRef \<Rightarrow> AudioObjectID \<Rightarrow> pid_t
     \<Rightarrow> AudioObjectPropertyAddress option \<Rightarrow> UInt32 \<Rightarrow> UInt8 list option
     \<Rightarrow> UInt32 \<Rightarrow> UInt8 list option \<Rightarrow> OSStatus \<times> driver_state" where
  "PlugIn_SetPropertyData s inDriver inObjectID inClientProcessID inAddress
       inQualifierDataSize inQualifierData inDataSize inData =
     (kAudioHardwareUnknownPropertyError, s)"

section \<open>IO operations\<close>

text \<open>
  The two IO buffers are arrays of samples behind \<open>void *\<close>; the handlers never look
  at a sample, so the sample type is a parameter.
\<close>

definition PlugIn_BeginIOOperation ::
  "driver_state \<Rightarrow> AudioServerPlugInDriverRef \<Rightarrow> AudioObjectID \<Rightarrow> UInt32 \<Rightarrow> UInt32
     \<Rightarrow> UInt32 \<Rightarrow> IOCycleInfoRef \<Rightarrow> OSStatus \<times> driver_state" where
  "PlugIn_BeginIOOperation s inDriver inDeviceObjectID inClientID inOperationID
       inIOBufferFrameSize inIOCycleInfo =
     (kAudioHardwareNoError, s)"

definition PlugIn_DoIOOperation ::
  "driver_state \<Rightarrow> AudioServerPlugInDriverRef \<Rightarrow> AudioObjectID \<Rightarrow> AudioObjectID
     \<Rightarrow> UInt32 \<Rightarrow> UInt32 \<Rightarrow> UInt32 \<Rightarrow> IOCycleInfoRef
     \<Rightarrow> 'a list option \<Rightarrow> 'a list option
     \<Rightarrow> OSStatus \<times> 'a list option \<times> 'a list option \<times> driver_state" where
  "PlugIn_DoIOOperation s inDriver inDeviceObjectID inStreamObjectID inClientID
       inOperationID inIOBufferFrameSize inIOCycleInfo ioMainBuffer ioSecondaryBuffer =
     (kAudioHardwareNoError, ioMainBuffer, ioSecondaryBuffer, s)"

definition PlugIn_EndIOOperation ::
  "driver_state \<Rightarrow> AudioServerPlugInDriverRef \<Rightarrow> AudioObjectID \<Rightarrow> UInt32 \<Rightarrow> UInt32
     \<Rightarrow> UInt32 \<Rightarrow> IOCycleInfoRef \<Rightarrow> OSStatus \<times> driver_state" where
  "PlugIn_EndIOOperation s inDriver inDeviceObjectID inClientID inOperationID
       inIOBufferFrameSize inIOCycleInfo =
     (kAudioHardwareNoError, s)"

section \<open>Factory function\<close>

text \<open>
  \<open>requestedTypeUUID\<close> is a \<open>CFUUIDRef\<close> handed to \<open>CFEqual\<close>; it is passed as the
  UUID it refers to. The result is the returned pointer.
\<close>

definition AppFadersDriver_Create ::
  "driver_state \<Rightarrow> CFAllocatorRef \<Rightarrow> CFUUIDBytes \<Rightarrow> pointer \<times> driver_state" where
  "AppFadersDriver_Create s allocator requestedTypeUUID =
     (if \<not> CFEqual requestedTypeUUID audioServerPlugInTypeUUID then (NULL, s)
      else (AddressOf_gDriverInterfacePtr, atomic_store s 1))"

section \<open>Scenario inputs\<close>

text \<open>
  The statics after the host has loaded the driver: \<open>AppFadersDriver_Create\<close> with the
  plug-in type UUID, then \<open>PlugIn_Initialize\<close> with a non-null host.
\<close>

definition driver_running :: driver_state where
  "driver_running =
     snd (PlugIn_Initialize
            (snd (AppFadersDriver_Create driver_initial NULL audioServerPlugInTypeUUID))
            AddressOf_gDriverInterfacePtr (Address 1))"

text \<open>
  Modelled from the spec: the "sample rate" selector of the Device object. The selector
  and scope constants are declared in CoreAudio's headers, not in the repository; the
  four-character codes \<open>'nsrt'\<close> and \<open>'glob'\<close> stand for them here. The property
  handlers never read the address, so no result below depends on these values.
\<close>

definition sampleRateAddress :: AudioObjectPropertyAddress where
  "sampleRateAddress = \<lparr>mSelector = 0x6E737274, mScope = 0x676C6F62, mElement = 0\<rparr>"

text \<open>
  Modelled from the spec: the object id of the single Device. The repository assigns no
  object ids; the handlers never read the id they are given.
\<close>

definition deviceObjectID :: AudioObjectID where
  "deviceObjectID = 2"



text \<open>
  Modelled from the spec: the request \<open>set_gain(1, 0.5)\<close> as the driver can receive it.
  The vtable has one entry that takes a value from the host, \<open>SetPropertyData\<close>
  (\<open>set_data\<close> in section 6 of the specification); the request is a call of it on the
  Device object with the client id 1 as the qualifier and the 32-bit float 0.5 as the
  data, both little-endian, under the four-character code \<open>'gain'\<close>. The handler reads
  none of them.
\<close>

definition gainAddress :: AudioObjectPropertyAddress where
  "gainAddress = \<lparr>mSelector = 0x6761696E, mScope = 0x676C6F62, mElement = 0\<rparr>"

text \<open>Modelled from the spec: the client id 1 of the scenario, as the four bytes of a
  little-endian \<open>UInt32\<close> qualifier.\<close>

definition clientOneQualifier :: "UInt8 list" where
  "clientOneQualifier = [0x01, 0x00, 0x00, 0x00]"

text \<open>Modelled from the spec: the gain 0.5 of the scenario, as the four bytes of a
  little-endian 32-bit float (\<open>0x3F000000\<close>).\<close>

definition gainHalfData :: "UInt8 list" where
  "gainHalfData = [0x00, 0x00, 0x00, 0x3F]"

section \<open>Client Registry and Gain Table\<close>

text \<open>
  PlugInInterface.c keeps no client registry and no gain table, and has no function that
  reads a gain. The data of this section follows sections 3 and 4.2 of the specification
  instead. Only the data and the read are modelled, no operation that changes either
  table. Gains are real numbers; the values the specification names (1.0, 0.5) are exact
  in binary floating point.
\<close>

text \<open>Modelled from the spec: the Client of section 3, reduced to its process identifier
  (the client identifier is the registry key).\<close>

record ClientInfo =
  processId :: pid_t

text \<open>Modelled from the spec: the Gain Entry of section 3, a target gain and the
  ramped (current) value, which is anywhere between the last value and the target while
  a ramp is under way.\<close>

record GainEntry =
  targetGain :: real
  rampedGain :: real

text \<open>Modelled from the spec: the Client Registry and the Gain Table, both keyed by
  client identifier.\<close>

record core_state =
  registry :: "UInt32 \<rightharpoonup> ClientInfo"
  gain_table :: "UInt32 \<rightharpoonup> GainEntry"

text \<open>Modelled from the spec: \<open>current_gain\<close> of section 4.2, the render path's read
  of the Gain Table alone; a missing entry reads as unity.\<close>

definition current_gain :: "core_state \<Rightarrow> UInt32 \<Rightarrow> real" where
  "current_gain s clientId =
     (case gain_table s clientId of None \<Rightarrow> 1 | Some e \<Rightarrow> rampedGain e)"


section \<open>Reference counting and the factory\<close>

lemma driver_running_state:
  "driver_running = \<lparr>sDriverRefCount = 1, sHost = Address 1\<rparr>"
  by (simp add: driver_running_def PlugIn_Initialize_def AppFadersDriver_Create_def
      driver_initial_def CFEqual_def atomic_store_def)

text \<open>
  C8. \<open>PlugIn_QueryInterface\<close> with a null \<open>outInterface\<close> returns \<open>E_POINTER\<close> and
  touches nothing. With a non-null \<open>outInterface\<close>: for the driver-interface UUID and
  for the IUnknown UUID it adds one to the reference count (a \<open>UInt32\<close>, so the addition
  is modulo \<open>2^32\<close>), stores \<open>&gDriverInterfacePtr\<close> in \<open>*outInterface\<close> and returns
  \<open>S_OK\<close>; for every other UUID it stores \<open>NULL\<close>, returns \<open>E_NOINTERFACE\<close> and leaves
  the statics, the reference count among them, unchanged.
\<close>

theorem query_interface_contract:
  "PlugIn_QueryInterface s drv uuid None = (E_POINTER, None, s)
   \<and> PlugIn_QueryInterface s drv driverInterfaceUUID (Some p)
       = (S_OK, Some AddressOf_gDriverInterfacePtr,
          s\<lparr>sDriverRefCount := sDriverRefCount s + 1\<rparr>)
   \<and> PlugIn_QueryInterface s drv iunknownUUID (Some p)
       = (S_OK, Some AddressOf_gDriverInterfacePtr,
          s\<lparr>sDriverRefCount := sDriverRefCount s + 1\<rparr>)
   \<and> (uuid \<noteq> driverInterfaceUUID \<and> uuid \<noteq> iunknownUUID \<longrightarrow>
        PlugIn_QueryInterface s drv uuid (Some p) = (E_NOINTERFACE, Some NULL, s))"
  by (simp add: PlugIn_QueryInterface_def CFEqual_def atomic_fetch_add_def)

text \<open>The plug-in type UUID is neither of the two supported interface UUIDs.\<close>

theorem query_interface_contract_witness:
  "audioServerPlugInTypeUUID \<noteq> driverInterfaceUUID
   \<and> audioServerPlugInTypeUUID \<noteq> iunknownUUID
   \<and> PlugIn_QueryInterface \<lparr>sDriverRefCount = 1, sHost = Address 1\<rparr>
        AddressOf_gDriverInterfacePtr audioServerPlugInTypeUUID (Some (Address 7))
       = (E_NOINTERFACE, Some NULL, \<lparr>sDriverRefCount = 1, sHost = Address 1\<rparr>)"
  using query_interface_contract
    [of "\<lparr>sDriverRefCount = 1, sHost = Address 1\<rparr>" AddressOf_gDriverInterfacePtr
        audioServerPlugInTypeUUID "Address 7"]
  by (simp add: audioServerPlugInTypeUUID_def driverInterfaceUUID_def iunknownUUID_def)

text \<open>
  One call running alone: on a positive count \<open>PlugIn_Release\<close> leaves a count that
  is exactly one less, as a natural number, and returns it; on a count of zero it
  returns zero and leaves the statics as they were.
\<close>

lemma release_alone:
  "(0 < sDriverRefCount s \<longrightarrow>
      unat (sDriverRefCount (snd (PlugIn_Release s drv))) + 1 = unat (sDriverRefCount s)
      \<and> fst (PlugIn_Release s drv) = sDriverRefCount (snd (PlugIn_Release s drv))
      \<and> sHost (snd (PlugIn_Release s drv)) = sHost s)
   \<and> (sDriverRefCount t = 0 \<longrightarrow> PlugIn_Release t drv = (0, t))"
proof -
  have pos: "Suc (unat (c - 1)) = unat c" if "0 < c" for c :: UInt32
  proof -
    from that have "c \<noteq> 0" by (simp add: word_neq_0_conv)
    then have "unat (c - 1) = unat c - 1" by (rule unat_minus_one)
    moreover from \<open>c \<noteq> 0\<close> have "0 < unat c" by (simp add: unat_gt_0)
    ultimately show ?thesis by simp
  qed
  show ?thesis
    by (simp add: PlugIn_Release_def atomic_load_def atomic_fetch_sub_def Let_def pos)
qed

text \<open>The two atomic steps of one call, taken back to back, are \<open>PlugIn_Release\<close>.\<close>

lemma release_steps_alone:
  "release_step (snd (release_step s ReleaseEntry)) (fst (release_step s ReleaseEntry))
     = (ReleaseReturned (fst (PlugIn_Release s drv)), snd (PlugIn_Release s drv))"
  by (simp add: PlugIn_Release_def atomic_load_def atomic_fetch_sub_def Let_def)

text \<open>
  C9 fails when two calls overlap. With the count at 1, two threads call
  \<open>PlugIn_Release\<close>; both load 1 before either subtracts, so both pass the \<open>> 0\<close>
  test. The first subtraction leaves 0 and that call returns 0; the second subtraction
  wraps the count to \<open>0xFFFFFFFF\<close> and that call returns \<open>0xFFFFFFFF\<close>. The guard
  that is meant to stop at zero does not: the load and the subtraction are two atomic
  operations, not one.
\<close>

theorem release_interleaved_underflows:
  "release_interleaved \<lparr>sDriverRefCount = 1, sHost = Address 1\<rparr>
       [ThreadA, ThreadB, ThreadA, ThreadB]
     = (\<lparr>sDriverRefCount = 0xFFFFFFFF, sHost = Address 1\<rparr>,
        ReleaseReturned 0, ReleaseReturned 0xFFFFFFFF)"
  by (simp add: release_interleaved_def atomic_load_def atomic_fetch_sub_def)

text \<open>
  C10. \<open>AppFadersDriver_Create\<close> returns \<open>NULL\<close> (and leaves the statics alone) for
  every requested type UUID other than the plug-in type UUID; for the plug-in type UUID
  it stores 1 in the reference count, whatever the count was, and returns
  \<open>&gDriverInterfacePtr\<close>, which is not \<open>NULL\<close>.
\<close>

theorem driver_create_contract:
  "(uuid \<noteq> audioServerPlugInTypeUUID \<longrightarrow> AppFadersDriver_Create s alloc uuid = (NULL, s))
   \<and> AppFadersDriver_Create s alloc audioServerPlugInTypeUUID
       = (AddressOf_gDriverInterfacePtr, s\<lparr>sDriverRefCount := 1\<rparr>)
   \<and> AddressOf_gDriverInterfacePtr \<noteq> NULL"
  by (simp add: AppFadersDriver_Create_def CFEqual_def atomic_store_def)

text \<open>Asking the factory for IUnknown's UUID gives \<open>NULL\<close> and keeps a count of 5.\<close>

theorem driver_create_contract_witness:
  "iunknownUUID \<noteq> audioServerPlugInTypeUUID
   \<and> AppFadersDriver_Create \<lparr>sDriverRefCount = 5, sHost = NULL\<rparr> NULL iunknownUUID
       = (NULL, \<lparr>sDriverRefCount = 5, sHost = NULL\<rparr>)"
  using driver_create_contract [of iunknownUUID "\<lparr>sDriverRefCount = 5, sHost = NULL\<rparr>" NULL]
  by (simp add: audioServerPlugInTypeUUID_def iunknownUUID_def)

section \<open>Device creation and destruction\<close>





section \<open>Client notifications\<close>

text \<open>
  Adding client 5 a second time: the second \<open>PlugIn_AddDeviceClient\<close> returns the
  success code \<open>kAudioHardwareNoError\<close>, not a failure.
\<close>

theorem add_twice_counterexample:
  "fst (PlugIn_AddDeviceClient
          (snd (PlugIn_AddDeviceClient driver_running AddressOf_gDriverInterfacePtr
                  deviceObjectID \<lparr>mClientID = 5, mProcessID = 100\<rparr>))
          AddressOf_gDriverInterfacePtr deviceObjectID \<lparr>mClientID = 5, mProcessID = 100\<rparr>)
     = kAudioHardwareNoError"
  by (simp add: PlugIn_AddDeviceClient_def)

text \<open>
  C4, as the code has it. \<open>PlugIn_AddDeviceClient\<close> returns \<open>kAudioHardwareNoError\<close>
  on every call, whether or not the same client was added before, and leaves the
  driver's statics as they were: the driver records no client.
\<close>

theorem add_client_always_succeeds:
  "PlugIn_AddDeviceClient s drv dev info = (kAudioHardwareNoError, s)
   \<and> PlugIn_AddDeviceClient (snd (PlugIn_AddDeviceClient s drv dev info)) drv dev info
       = (kAudioHardwareNoError, s)"
  by (simp add: PlugIn_AddDeviceClient_def)

section \<open>Property queries\<close>

text \<open>
  C1. Take a size query with a non-null \<open>outDataSize\<close>, and a data query for the same
  object, address and qualifier run on the statics the size query left. Either the data
  query was handed a null pointer, returns \<open>kAudioHardwareIllegalOperationError\<close> and
  writes nothing at all, or the size it stores in \<open>*outDataSize\<close> is at most the size
  the size query stored, and the data buffer is untouched.
\<close>

theorem get_data_within_get_size:
  assumes gs: "PlugIn_GetPropertyDataSize s drv obj pid addr qs q (Some m0) = (st', m, s')"
      and gd: "PlugIn_GetPropertyData s' drv obj pid addr qs q ds outSize outData
                 = (st, n, d, s'')"
  shows "(st = kAudioHardwareIllegalOperationError \<and> n = outSize \<and> d = outData)
         \<or> (\<exists>a b. n = Some a \<and> m = Some b \<and> unat a \<le> unat b \<and> d = outData)"
  using gs gd
  by (auto simp: PlugIn_GetPropertyData_def PlugIn_GetPropertyDataSize_def split: if_splits)

text \<open>The sample-rate address on the running driver, with an 8-byte buffer.\<close>

theorem get_data_within_get_size_witness:
  "fst (snd (PlugIn_GetPropertyDataSize driver_running AddressOf_gDriverInterfacePtr
               deviceObjectID 100 (Some sampleRateAddress) 0 None (Some 77))) = Some 0
   \<and> fst (snd (PlugIn_GetPropertyData driver_running AddressOf_gDriverInterfacePtr
                 deviceObjectID 100 (Some sampleRateAddress) 0 None 8 (Some 99)
                 (Some [1, 2, 3, 4, 5, 6, 7, 8]))) = Some 0
   \<and> unat (0 :: UInt32) \<le> unat (0 :: UInt32)"
  using get_data_within_get_size
    [of driver_running AddressOf_gDriverInterfacePtr deviceObjectID 100
        "Some sampleRateAddress" 0 None 77 kAudioHardwareUnknownPropertyError "Some 0"
        driver_running 8 "Some 99" "Some [1, 2, 3, 4, 5, 6, 7, 8]"
        kAudioHardwareUnknownPropertyError "Some 0" "Some [1, 2, 3, 4, 5, 6, 7, 8]"
        driver_running]
  by (simp add: PlugIn_GetPropertyData_def PlugIn_GetPropertyDataSize_def)

text \<open>
  The size query for the sample-rate selector on the Device object does not store 8 in
  \<open>*outDataSize\<close>.
\<close>

theorem sample_rate_size_counterexample:
  "fst (snd (PlugIn_GetPropertyDataSize driver_running AddressOf_gDriverInterfacePtr
               deviceObjectID 100 (Some sampleRateAddress) 0 None (Some 77))) \<noteq> Some 8"
  by (simp add: PlugIn_GetPropertyDataSize_def)

text \<open>
  C6, as the code has it. For every object and address, the sample-rate selector on the
  Device object included, a size query with a non-null \<open>outDataSize\<close> stores size 0 and
  returns \<open>kAudioHardwareUnknownPropertyError\<close>; a data query with non-null
  \<open>outDataSize\<close> and \<open>outData\<close> stores 0 as the number of bytes written, leaves the
  data buffer untouched and returns \<open>kAudioHardwareUnknownPropertyError\<close>.
\<close>

theorem property_queries_unknown:
  "PlugIn_GetPropertyDataSize s drv obj pid addr qs q (Some m0)
     = (kAudioHardwareUnknownPropertyError, Some 0, s)
   \<and> PlugIn_GetPropertyData s drv obj pid addr qs q ds (Some n0) (Some buf)
     = (kAudioHardwareUnknownPropertyError, Some 0, Some buf, s)"
  by (simp add: PlugIn_GetPropertyDataSize_def PlugIn_GetPropertyData_def)

section \<open>The IO cycle\<close>

text \<open>
  C7. For every input, \<open>PlugIn_BeginIOOperation\<close>, \<open>PlugIn_DoIOOperation\<close> and
  \<open>PlugIn_EndIOOperation\<close> return \<open>kAudioHardwareNoError\<close>; the statics are unchanged,
  and \<open>PlugIn_DoIOOperation\<close> hands both buffers back exactly as it got them
  (pass-through).
\<close>

theorem io_operations_never_fail:
  "PlugIn_BeginIOOperation s drv dev cl opn n ci = (kAudioHardwareNoError, s)
   \<and> PlugIn_DoIOOperation s drv dev strm cl opn n ci mainBuf secBuf
       = (kAudioHardwareNoError, mainBuf, secBuf, s)
   \<and> PlugIn_EndIOOperation s drv dev cl opn n ci = (kAudioHardwareNoError, s)"
  by (simp add: PlugIn_BeginIOOperation_def PlugIn_DoIOOperation_def PlugIn_EndIOOperation_def)

text \<open>
  The scenario on the running driver: client 1 (process 100) is added, the request
  \<open>set_gain(1, 0.5)\<close> is made, then one \<open>PlugIn_DoIOOperation\<close> runs over the 2-frame
  buffer \<open>[1.0, 1.0]\<close>. The first output sample, whose input sample is 1.0, is not
  strictly between 0.5 times and 1.0 times its input.
\<close>

theorem do_cycle_ramp_counterexample:
  "\<not> (1 / 2 * (1::real)
        < the (fst (snd (PlugIn_DoIOOperation
              (snd (PlugIn_SetPropertyData
                 (snd (PlugIn_AddDeviceClient driver_running AddressOf_gDriverInterfacePtr
                         deviceObjectID \<lparr>mClientID = 1, mProcessID = 100\<rparr>))
                 AddressOf_gDriverInterfacePtr deviceObjectID 100 (Some gainAddress)
                 4 (Some clientOneQualifier) 4 (Some gainHalfData)))
              AddressOf_gDriverInterfacePtr deviceObjectID 3 1 0 2 NULL
              (Some [1, 1]) None))) ! 0
      \<and> the (fst (snd (PlugIn_DoIOOperation
              (snd (PlugIn_SetPropertyData
                 (snd (PlugIn_AddDeviceClient driver_running AddressOf_gDriverInterfacePtr
                         deviceObjectID \<lparr>mClientID = 1, mProcessID = 100\<rparr>))
                 AddressOf_gDriverInterfacePtr deviceObjectID 100 (Some gainAddress)
                 4 (Some clientOneQualifier) 4 (Some gainHalfData)))
              AddressOf_gDriverInterfacePtr deviceObjectID 3 1 0 2 NULL
              (Some [1, 1]) None))) ! 0
        < 1 * (1::real))"
  by (simp add: PlugIn_DoIOOperation_def)

text \<open>
  C2, as the code has it. After client 1 (process 100) is added, a request to set a
  gain, whatever its object, address, qualifier and data, is refused with
  \<open>kAudioHardwareUnknownPropertyError\<close> and stores nothing; one
  \<open>PlugIn_DoIOOperation\<close> over the 2-frame buffer \<open>[1.0, 1.0]\<close> then returns
  \<open>kAudioHardwareNoError\<close> and leaves the samples \<open>[1.0, 1.0]\<close>: every frame passes
  through with gain exactly 1.0, and there is no ramp.
\<close>

theorem do_cycle_passes_through:
  "PlugIn_SetPropertyData
       (snd (PlugIn_AddDeviceClient s drv dev \<lparr>mClientID = 1, mProcessID = 100\<rparr>))
       drv obj pid addr qs q ds dat
     = (kAudioHardwareUnknownPropertyError, s)
   \<and> PlugIn_DoIOOperation
       (snd (PlugIn_SetPropertyData
          (snd (PlugIn_AddDeviceClient s drv dev \<lparr>mClientID = 1, mProcessID = 100\<rparr>))
          drv obj pid addr qs q ds dat))
       drv dev strm 1 opn 2 ci (Some [1, 1 :: real]) secBuf
     = (kAudioHardwareNoError, Some [1, 1], secBuf, s)"
  by (simp add: PlugIn_DoIOOperation_def PlugIn_SetPropertyData_def PlugIn_AddDeviceClient_def)

section \<open>The gain of an unknown client\<close>

text \<open>
  The invariant is needed: with a stale gain entry for a client that is not registered,
  that client does not read as unity.
\<close>

lemma stale_gain_entry_not_unity:
  "registry \<lparr>registry = Map.empty,
             gain_table = [7 \<mapsto> \<lparr>targetGain = 1 / 2, rampedGain = 1 / 2\<rparr>]\<rparr> 7 = None
   \<and> current_gain \<lparr>registry = Map.empty,
                    gain_table = [7 \<mapsto> \<lparr>targetGain = 1 / 2, rampedGain = 1 / 2\<rparr>]\<rparr> 7
       \<noteq> 1"
  by (simp add: current_gain_def)



end
